theory Spec2Isabelle
  imports Complex_Main "HOL-Library.Sublist"
begin

section \<open>The weather ETL pipeline\<close>

text \<open>
  A shallow embedding of the pipeline's Python: \<^verbatim>\<open>pipeline/transform.py\<close>,
  \<^verbatim>\<open>pipeline/load.py\<close>, \<^verbatim>\<open>pipeline/extract.py\<close>, the quality check of
  \<^verbatim>\<open>dags/weather_dag.py\<close> and the refresh callback of \<^verbatim>\<open>dashboard/app.py\<close>.

  Numbers are modelled as \<^typ>\<open>real\<close>; a null cell (\<^verbatim>\<open>None\<close> in the JSON,
  \<^verbatim>\<open>NaN\<close> in a pandas column) is \<^term>\<open>None\<close>. Floating-point rounding is
  not modelled. Every exception of the source is a value of \<open>error\<close>, returned as
  \<^term>\<open>Inl\<close>.
\<close>

datatype error =
    KeyError string
  | ValueError string
  | RuntimeError string
  | HTTPError nat
  | MaxRetryError
  | RetryError

subsection \<open>Dates\<close>

text \<open>
  \<^verbatim>\<open>pd.to_datetime\<close> is pandas' parser. The model covers the calendar dates
  \<^verbatim>\<open>YYYY-MM-DD\<close> that the API sends in \<^verbatim>\<open>daily.time\<close>; a string that is
  not such a date raises \<^verbatim>\<open>ValueError\<close>, and the whole list is parsed or none of it.
\<close>

record timestamp =
  year :: nat
  month :: nat
  day :: nat

definition is_digit :: "char \<Rightarrow> bool" where
  "is_digit c = (48 \<le> (of_char c :: nat) \<and> (of_char c :: nat) \<le> 57)"

definition digits :: "string \<Rightarrow> nat option" where
  "digits s =
     (if s \<noteq> [] \<and> list_all is_digit s
      then Some (foldl (\<lambda>n c. 10 * n + (of_char c - 48)) 0 s)
      else None)"

definition leap_year :: "nat \<Rightarrow> bool" where
  "leap_year y = (y mod 4 = 0 \<and> (y mod 100 \<noteq> 0 \<or> y mod 400 = 0))"

definition days_in_month :: "nat \<Rightarrow> nat \<Rightarrow> nat" where
  "days_in_month y m =
     (if m = 2 then (if leap_year y then 29 else 28)
      else if m = 4 \<or> m = 6 \<or> m = 9 \<or> m = 11 then 30
      else 31)"

definition parse_iso_date :: "string \<Rightarrow> timestamp option" where
  "parse_iso_date s =
     (if length s = 10 \<and> s ! 4 = CHR ''-'' \<and> s ! 7 = CHR ''-'' then
        (case (digits (take 4 s), digits (take 2 (drop 5 s)), digits (drop 8 s)) of
           (Some y, Some m, Some d) \<Rightarrow>
             if 1 \<le> m \<and> m \<le> 12 \<and> 1 \<le> d \<and> d \<le> days_in_month y m
             then Some \<lparr>year = y, month = m, day = d\<rparr>
             else None
         | _ \<Rightarrow> None)
      else None)"

fun to_datetime :: "string list \<Rightarrow> error + timestamp list" where
  "to_datetime [] = Inr []"
| "to_datetime (s # ss) =
     (case parse_iso_date s of
        None \<Rightarrow> Inl (ValueError s)
      | Some d \<Rightarrow>
          (case to_datetime ss of
             Inl e \<Rightarrow> Inl e
           | Inr ds \<Rightarrow> Inr (d # ds)))"

subsection \<open>The Normalizer: \<^verbatim>\<open>transform\<close>\<close>

text \<open>
  The fetched response is a dict; \<^verbatim>\<open>raw_data.get("daily", {})\<close> reads its
  \<^verbatim>\<open>daily\<close> entry, an absent entry being the empty dict. The \<^verbatim>\<open>daily\<close> dict
  is modelled by its five series, each present (\<^term>\<open>Some\<close>) or absent
  (\<^term>\<open>None\<close>): \<^verbatim>\<open>daily["k"]\<close> on an absent key raises \<^verbatim>\<open>KeyError\<close>.
\<close>

record daily =
  time :: "string list option"
  temperature_2m_max :: "real option list option"
  temperature_2m_min :: "real option list option"
  precipitation_sum :: "real option list option"
  windspeed_10m_max :: "real option list option"

type_synonym raw_data = "string \<rightharpoonup> daily"

definition empty_dict :: daily where
  "empty_dict = \<lparr>time = None, temperature_2m_max = None, temperature_2m_min = None,
     precipitation_sum = None, windspeed_10m_max = None\<rparr>"

definition CITY :: string where
  "CITY = ''Singapore''"

text \<open>A DataFrame is modelled by its columns, all of the length of its index.\<close>

record raw_df =
  city :: "string list"
  date :: "timestamp list"
  temperature_max :: "real option list"
  temperature_min :: "real option list"
  precipitation :: "real option list"
  windspeed_max :: "real option list"

record summary_df =
  summary_city :: "string list"
  summary_date :: "timestamp list"
  avg_temperature :: "real option list"
  total_precipitation :: "real option list"
  max_windspeed :: "real option list"

text \<open>
  The constructor \<^verbatim>\<open>pd.DataFrame({...})\<close> of \<^verbatim>\<open>raw_df\<close>: the scalar
  \<^verbatim>\<open>CITY\<close> is broadcast over the index, and pandas raises \<^verbatim>\<open>ValueError\<close>
  when the five arrays do not all have one length.
\<close>

definition DataFrame :: "string \<Rightarrow> timestamp list \<Rightarrow> real option list \<Rightarrow> real option list \<Rightarrow>
    real option list \<Rightarrow> real option list \<Rightarrow> error + raw_df" where
  "DataFrame c d tmax tmin p w =
     (if length tmax = length d \<and> length tmin = length d \<and> length p = length d
         \<and> length w = length d
      then Inr \<lparr>city = replicate (length d) c, date = d, temperature_max = tmax,
                temperature_min = tmin, precipitation = p, windspeed_max = w\<rparr>
      else Inl (ValueError ''All arrays must be of the same length''))"

definition len :: "raw_df \<Rightarrow> nat" where
  "len df = length (date df)"

definition len_summary :: "summary_df \<Rightarrow> nat" where
  "len_summary df = length (summary_date df)"

text \<open>\<^verbatim>\<open>Series.fillna(v)\<close>: a null cell becomes \<open>v\<close>, any other cell is kept.\<close>

definition fillna :: "real \<Rightarrow> real option list \<Rightarrow> real option list" where
  "fillna v col = map (\<lambda>x. case x of None \<Rightarrow> Some v | Some y \<Rightarrow> Some y) col"

text \<open>Elementwise arithmetic of two columns on one index: a null operand gives null.\<close>

fun add_cell :: "real option \<Rightarrow> real option \<Rightarrow> real option" where
  "add_cell (Some a) (Some b) = Some (a + b)"
| "add_cell _ _ = None"

definition add_series :: "real option list \<Rightarrow> real option list \<Rightarrow> real option list" where
  "add_series xs ys = map (\<lambda>(x, y). add_cell x y) (zip xs ys)"

definition div_series :: "real option list \<Rightarrow> real \<Rightarrow> real option list" where
  "div_series xs k = map (map_option (\<lambda>x. x / k)) xs"

definition get_daily :: "raw_data \<Rightarrow> daily" where
  "get_daily raw_data = (case raw_data ''daily'' of None \<Rightarrow> empty_dict | Some d \<Rightarrow> d)"

definition build_summary :: "raw_df \<Rightarrow> summary_df" where
  "build_summary df =
     \<lparr>summary_city = city df,
      summary_date = date df,
      avg_temperature = div_series (add_series (temperature_max df) (temperature_min df)) 2,
      total_precipitation = precipitation df,
      max_windspeed = windspeed_max df\<rparr>"

definition transform :: "raw_data \<Rightarrow> error + (raw_df \<times> summary_df)" where
  "transform raw_data =
     (let daily = get_daily raw_data in
      (case time daily of None \<Rightarrow> Inl (KeyError ''time'') | Some t \<Rightarrow>
      (case to_datetime t of Inl e \<Rightarrow> Inl e | Inr d \<Rightarrow>
      (case temperature_2m_max daily of None \<Rightarrow> Inl (KeyError ''temperature_2m_max'') | Some tmax \<Rightarrow>
      (case temperature_2m_min daily of None \<Rightarrow> Inl (KeyError ''temperature_2m_min'') | Some tmin \<Rightarrow>
      (case precipitation_sum daily of None \<Rightarrow> Inl (KeyError ''precipitation_sum'') | Some p \<Rightarrow>
      (case windspeed_10m_max daily of None \<Rightarrow> Inl (KeyError ''windspeed_10m_max'') | Some w \<Rightarrow>
      (case DataFrame CITY d tmax tmin p w of Inl e \<Rightarrow> Inl e | Inr df \<Rightarrow>
        (let df = df\<lparr>precipitation := fillna 0 (precipitation df)\<rparr>
         in Inr (df, build_summary df))))))))))"

subsection \<open>The Loader: \<^verbatim>\<open>upsert_raw\<close> and \<^verbatim>\<open>load\<close>\<close>

text \<open>
  The database holds the tables \<^verbatim>\<open>raw_weather\<close> and \<^verbatim>\<open>daily_summary\<close>. A
  table is the list of its rows in insertion order. The rows of \<^verbatim>\<open>daily_summary\<close>
  are written by dbt, outside the repository's Python, so their type is left open.
\<close>

record raw_weather_row =
  row_city :: string
  row_date :: timestamp
  row_temperature_max :: "real option"
  row_temperature_min :: "real option"
  row_precipitation :: "real option"
  row_windspeed_max :: "real option"

record 's database =
  raw_weather :: "raw_weather_row list"
  daily_summary :: "'s list"

text \<open>\<^verbatim>\<open>raw_df.to_dict(orient="records")\<close>: one record per index, in index order.\<close>

definition to_dict_records :: "raw_df \<Rightarrow> raw_weather_row list" where
  "to_dict_records df =
     map (\<lambda>(c, d, tmax, tmin, p, w).
            \<lparr>row_city = c, row_date = d, row_temperature_max = tmax,
             row_temperature_min = tmin, row_precipitation = p, row_windspeed_max = w\<rparr>)
       (zip (city df) (zip (date df) (zip (temperature_max df)
         (zip (temperature_min df) (zip (precipitation df) (windspeed_max df))))))"

text \<open>The conflict target of the statement: \<^verbatim>\<open>index_elements=["city", "date"]\<close>.\<close>

definition key :: "raw_weather_row \<Rightarrow> string \<times> timestamp" where
  "key r = (row_city r, row_date r)"

text \<open>
  \<^verbatim>\<open>INSERT INTO raw_weather VALUES ... ON CONFLICT (city, date) DO NOTHING\<close>, with
  the meaning PostgreSQL gives it: the rows are taken in order, a row whose key is already
  in the table (stored before, or inserted earlier by this statement) is skipped, any
  other row is appended. The second component is the statement's \<^verbatim>\<open>rowcount\<close>, the
  number of rows inserted. An empty batch is modelled as a statement that inserts nothing.
\<close>

fun on_conflict_do_nothing ::
    "raw_weather_row list \<Rightarrow> raw_weather_row list \<Rightarrow> raw_weather_row list \<times> nat" where
  "on_conflict_do_nothing tbl [] = (tbl, 0)"
| "on_conflict_do_nothing tbl (r # rs) =
     (if key r \<in> key ` set tbl then on_conflict_do_nothing tbl rs
      else (case on_conflict_do_nothing (tbl @ [r]) rs of (tbl', n) \<Rightarrow> (tbl', Suc n)))"

definition upsert_raw :: "'s database \<Rightarrow> raw_df \<Rightarrow> 's database \<times> nat" where
  "upsert_raw engine df =
     (let records = to_dict_records df;
          (tbl, inserted) = on_conflict_do_nothing (raw_weather engine) records
      in (engine\<lparr>raw_weather := tbl\<rparr>, inserted))"

text \<open>
  \<^verbatim>\<open>load\<close> commits the upsert and then counts the table; the database it leaves is
  returned with the outcome, since the insert stays committed when the gate raises.
\<close>

definition load :: "'s database \<Rightarrow> raw_df \<Rightarrow> 's database \<times> (error + unit)" where
  "load engine df =
     (let (engine', inserted) = upsert_raw engine df;
          count = length (raw_weather engine')
      in if count = 0
         then (engine', Inl (RuntimeError ''Data quality gate FAILED: raw_weather is empty after load''))
         else (engine', Inr ()))"

subsection \<open>The Quality Gate: \<^verbatim>\<open>run_quality_check\<close>\<close>

text \<open>
  \<^verbatim>\<open>SELECT COUNT(*) FROM {table}\<close>, for the two table names the check passes. The
  loop raises at the first table without rows, so a later table is not counted.
\<close>

definition select_count :: "'s database \<Rightarrow> string \<Rightarrow> nat" where
  "select_count db t =
     (if t = ''raw_weather'' then length (raw_weather db) else length (daily_summary db))"

fun check_tables :: "'s database \<Rightarrow> string list \<Rightarrow> error + unit" where
  "check_tables db [] = Inr ()"
| "check_tables db (t # ts) =
     (if select_count db t = 0
      then Inl (ValueError (''Quality gate FAILED: '' @ t @ '' has 0 rows''))
      else check_tables db ts)"

definition run_quality_check :: "'s database \<Rightarrow> error + unit" where
  "run_quality_check db = check_tables db [''raw_weather'', ''daily_summary'']"

subsection \<open>The Fetcher: \<^verbatim>\<open>_build_session\<close> and \<^verbatim>\<open>extract\<close>\<close>

text \<open>
  The session mounts urllib3's \<^verbatim>\<open>Retry(total=3, backoff_factor=1,
  status_forcelist=[429, 500, 502, 503, 504])\<close> on requests' \<^verbatim>\<open>HTTPAdapter\<close>. The retry
  loop is the libraries', not the repository's: it is modelled from \<^verbatim>\<open>Retry.is_retry\<close>,
  \<^verbatim>\<open>Retry.increment\<close>, \<^verbatim>\<open>Retry.get_backoff_time\<close>, \<^verbatim>\<open>Retry.sleep\<close> and
  \<^verbatim>\<open>HTTPConnectionPool.urlopen\<close> of urllib3 and from \<^verbatim>\<open>HTTPAdapter.send\<close> of requests,
  with the defaults that \<^verbatim>\<open>_build_session\<close> leaves (\<^verbatim>\<open>respect_retry_after_header\<close>
  true, \<^verbatim>\<open>GET\<close> a retryable method, \<^verbatim>\<open>raise_on_status\<close> true).

  The server is modelled by the response it gives to the \<open>i\<close>-th request of the call; a
  response by its status, the seconds of its \<^verbatim>\<open>Retry-After\<close> header (\<^term>\<open>None\<close> when
  it has none) and its decoded body. Connection errors, timeouts, redirects and a
  \<^verbatim>\<open>Retry-After\<close> header that does not parse are not modelled. A pause is the number of
  seconds given to \<^verbatim>\<open>time.sleep\<close>, \<open>0\<close> when the transport does not sleep.
  \<open>build_session\<close> is the retry configuration that \<^verbatim>\<open>_build_session\<close> mounts; its
  \<open>history\<close> holds the statuses of the responses retried so far.
\<close>

record Retry =
  total :: nat
  backoff_factor :: nat
  status_forcelist :: "nat list"
  respect_retry_after_header :: bool
  history :: "nat list"

definition RETRY_AFTER_STATUS_CODES :: "nat list" where
  "RETRY_AFTER_STATUS_CODES = [413, 429, 503]"

definition DEFAULT_BACKOFF_MAX :: nat where
  "DEFAULT_BACKOFF_MAX = 120"

definition build_session :: Retry where
  "build_session =
     \<lparr>total = 3, backoff_factor = 1, status_forcelist = [429, 500, 502, 503, 504],
      respect_retry_after_header = True, history = []\<rparr>"

record 'a response =
  status_code :: nat
  retry_after :: "nat option"
  json :: 'a

text \<open>
  \<^verbatim>\<open>Retry.is_retry\<close>: a status of the force list is retried; a status of
  \<^verbatim>\<open>RETRY_AFTER_STATUS_CODES\<close> is retried when the response has a \<^verbatim>\<open>Retry-After\<close>
  header and \<open>total\<close> is not zero.
\<close>

definition is_retry :: "Retry \<Rightarrow> 'a response \<Rightarrow> bool" where
  "is_retry retries response =
     (status_code response \<in> set (status_forcelist retries)
      \<or> (total retries \<noteq> 0 \<and> respect_retry_after_header retries
          \<and> retry_after response \<noteq> None
          \<and> status_code response \<in> set RETRY_AFTER_STATUS_CODES))"

text \<open>
  \<^verbatim>\<open>Retry.increment\<close>: one retry less and the response added to the history;
  \<^verbatim>\<open>MaxRetryError\<close> when no retry was left.
\<close>

definition increment :: "Retry \<Rightarrow> 'a response \<Rightarrow> error + Retry" where
  "increment retries response =
     (if total retries = 0 then Inl MaxRetryError
      else Inr (retries\<lparr>total := total retries - 1,
                        history := history retries @ [status_code response]\<rparr>))"

definition get_backoff_time :: "Retry \<Rightarrow> nat" where
  "get_backoff_time retries =
     (let consecutive_errors_len = length (history retries)
      in if consecutive_errors_len \<le> 1 then 0
         else min DEFAULT_BACKOFF_MAX (backoff_factor retries * 2 ^ (consecutive_errors_len - 1)))"

text \<open>
  \<^verbatim>\<open>Retry.sleep\<close>: the seconds of a \<^verbatim>\<open>Retry-After\<close> header that is not zero, the
  backoff otherwise.
\<close>

definition sleep :: "Retry \<Rightarrow> 'a response \<Rightarrow> nat" where
  "sleep retries response =
     (case (if respect_retry_after_header retries then retry_after response else None) of
        Some seconds \<Rightarrow> if seconds \<noteq> 0 then seconds else get_backoff_time retries
      | None \<Rightarrow> get_backoff_time retries)"

text \<open>
  \<^verbatim>\<open>HTTPConnectionPool.urlopen\<close>: \<open>urlopen retries server i pauses\<close> sends request
  \<open>i\<close> after the pauses made so far. It returns the outcome, the number of requests sent
  and the pauses made.
\<close>

function urlopen ::
    "Retry \<Rightarrow> (nat \<Rightarrow> 'a response) \<Rightarrow> nat \<Rightarrow> nat list \<Rightarrow> (error + 'a response) \<times> nat \<times> nat list" where
  "urlopen retries server i pauses =
     (if is_retry retries (server i) then
        (case increment retries (server i) of
           Inl e \<Rightarrow> (Inl e, Suc i, pauses)
         | Inr retries' \<Rightarrow>
             urlopen retries' server (Suc i) (pauses @ [sleep retries' (server i)]))
      else (Inr (server i), Suc i, pauses))"
  by pat_completeness auto
termination
  by (relation "measure (\<lambda>(retries, server, i, pauses). total retries)")
    (auto simp: increment_def split: if_splits)

declare urlopen.simps [simp del]

text \<open>
  \<^verbatim>\<open>session.get\<close>: \<^verbatim>\<open>HTTPAdapter.send\<close> raises urllib3's \<^verbatim>\<open>MaxRetryError\<close> on a
  response as \<^verbatim>\<open>RetryError\<close>.
\<close>

definition session_get ::
    "Retry \<Rightarrow> (nat \<Rightarrow> 'a response) \<Rightarrow> (error + 'a response) \<times> nat \<times> nat list" where
  "session_get retries server =
     (case urlopen retries server 0 [] of
        (Inl e, n, pauses) \<Rightarrow> (Inl (if e = MaxRetryError then RetryError else e), n, pauses)
      | (Inr response, n, pauses) \<Rightarrow> (Inr response, n, pauses))"

text \<open>
  \<^verbatim>\<open>Response.raise_for_status\<close>: a 4xx or 5xx status raises \<^verbatim>\<open>HTTPError\<close>.
  The source's \<^verbatim>\<open>extract\<close> is \<open>extract_response\<close> here, its own name being a
  command of Isabelle.
\<close>

definition raise_for_status :: "'a response \<Rightarrow> error + unit" where
  "raise_for_status r =
     (if 400 \<le> status_code r \<and> status_code r < 600 then Inl (HTTPError (status_code r)) else Inr ())"

definition extract_response :: "(nat \<Rightarrow> 'a response) \<Rightarrow> (error + 'a) \<times> nat \<times> nat list" where
  "extract_response server =
     (case session_get build_session server of
        (Inl e, n, pauses) \<Rightarrow> (Inl e, n, pauses)
      | (Inr response, n, pauses) \<Rightarrow>
          (case raise_for_status response of
             Inl e \<Rightarrow> (Inl e, n, pauses)
           | Inr _ \<Rightarrow> (Inr (json response), n, pauses)))"

subsection \<open>The dashboard: \<^verbatim>\<open>get_data\<close> and \<^verbatim>\<open>refresh_data\<close>\<close>

text \<open>
  A read of the database either raises, with the message \<^verbatim>\<open>str(exc)\<close>, or gives the
  two frames; a frame is the list of its rows. \<^verbatim>\<open>get_data\<close> turns an exception into
  two empty frames and the message.
\<close>

definition get_data :: "string + ('r list \<times> 's list) \<Rightarrow> 'r list \<times> 's list \<times> string option" where
  "get_data read =
     (case read of
        Inr (raw, summary) \<Rightarrow> (raw, summary, None)
      | Inl exc \<Rightarrow> ([], [], Some exc))"

datatype 'f content = Placeholder string | Graphs 'f

datatype style = BANNER_HIDDEN | BANNER_VISIBLE

definition build_tab_raw :: "'r list \<Rightarrow> 'r list content" where
  "build_tab_raw raw =
     (if raw = [] then Placeholder ''No data yet - run the Airflow DAG to populate raw_weather.''
      else Graphs raw)"

definition build_tab_summary :: "'s list \<Rightarrow> 's list content" where
  "build_tab_summary summary =
     (if summary = [] then Placeholder ''No data yet - run dbt after the DAG has loaded raw_weather.''
      else Graphs summary)"

text \<open>The four outputs of the callback: what the page shows after the refresh.\<close>

record ('r, 's) page =
  raw_content :: "'r list content"
  summary_content :: "'s list content"
  banner_children :: string
  banner_style :: style

text \<open>\<^verbatim>\<open>if error:\<close> is Python's truth of a value: neither \<^verbatim>\<open>None\<close> nor the empty string.\<close>

definition truthy :: "string option \<Rightarrow> bool" where
  "truthy e = (case e of None \<Rightarrow> False | Some m \<Rightarrow> m \<noteq> [])"

definition refresh_data :: "string + ('r list \<times> 's list) \<Rightarrow> ('r, 's) page" where
  "refresh_data read =
     (case get_data read of (raw, summary, err) \<Rightarrow>
        \<lparr>raw_content = build_tab_raw raw,
         summary_content = build_tab_summary summary,
         banner_children =
           (if truthy err
            then ''Database unreachable - charts show last loaded data. Error: '' @ the err
            else []),
         banner_style = (if truthy err then BANNER_VISIBLE else BANNER_HIDDEN)\<rparr>)"

text \<open>
  The page is refreshed on every tick of the interval: the callback's outputs replace what
  was shown, whatever it was.
\<close>

fun refresh_all :: "('r, 's) page \<Rightarrow> (string + ('r list \<times> 's list)) list \<Rightarrow> ('r, 's) page" where
  "refresh_all shown [] = shown"
| "refresh_all shown (read # reads) = refresh_all (refresh_data read) reads"

subsection \<open>Inputs of the test suite\<close>

text \<open>The responses of \<^verbatim>\<open>tests/test_transform.py\<close>.\<close>

definition MOCK_API_RESPONSE :: raw_data where
  "MOCK_API_RESPONSE = [''daily'' \<mapsto>
     \<lparr>time = Some [''2024-01-01'', ''2024-01-02'', ''2024-01-03''],
      temperature_2m_max = Some [Some 32.0, Some 33.5, Some 31.0],
      temperature_2m_min = Some [Some 25.0, Some 26.0, Some 24.5],
      precipitation_sum = Some [Some 0.0, Some 5.2, None],
      windspeed_10m_max = Some [Some 15.0, Some 20.0, Some 12.5]\<rparr>]"

definition MOCK_EMPTY_RESPONSE :: raw_data where
  "MOCK_EMPTY_RESPONSE = [''daily'' \<mapsto>
     \<lparr>time = Some [], temperature_2m_max = Some [], temperature_2m_min = Some [],
      precipitation_sum = Some [], windspeed_10m_max = Some []\<rparr>]"

text \<open>A response whose precipitation series is one day short.\<close>

definition MISALIGNED_RESPONSE :: raw_data where
  "MISALIGNED_RESPONSE = [''daily'' \<mapsto>
     \<lparr>time = Some [''2024-01-01'', ''2024-01-02''],
      temperature_2m_max = Some [Some 32.0, Some 33.0],
      temperature_2m_min = Some [Some 25.0, Some 26.0],
      precipitation_sum = Some [Some 0.0],
      windspeed_10m_max = Some [Some 15.0, Some 20.0]\<rparr>]"

text \<open>
  The pipeline runs once a day: a sequence of runs of the load step is a sequence of
  \<^verbatim>\<open>upsert_raw\<close> calls, each on the database the one before left.
\<close>

fun upsert_all :: "'s database \<Rightarrow> raw_df list \<Rightarrow> 's database" where
  "upsert_all engine [] = engine"
| "upsert_all engine (df # dfs) = upsert_all (fst (upsert_raw engine df)) dfs"

text \<open>
  \<^verbatim>\<open>SAMPLE_DF\<close> of \<^verbatim>\<open>tests/test_load.py\<close>, a batch that conflicts with
  \<^verbatim>\<open>SAMPLE_DF\<close> on 2024-01-02 with other values, and a database whose two tables are
  empty.
\<close>

definition SAMPLE_DF :: raw_df where
  "SAMPLE_DF =
     \<lparr>city = [''Singapore'', ''Singapore''],
      date = [\<lparr>year = 2024, month = 1, day = 1\<rparr>, \<lparr>year = 2024, month = 1, day = 2\<rparr>],
      temperature_max = [Some 32.0, Some 33.0],
      temperature_min = [Some 25.0, Some 26.0],
      precipitation = [Some 0.0, Some 5.0],
      windspeed_max = [Some 15.0, Some 20.0]\<rparr>"

definition CONFLICTING_DF :: raw_df where
  "CONFLICTING_DF =
     \<lparr>city = [''Singapore'', ''Singapore''],
      date = [\<lparr>year = 2024, month = 1, day = 2\<rparr>, \<lparr>year = 2024, month = 1, day = 3\<rparr>],
      temperature_max = [Some 40.0, Some 31.0],
      temperature_min = [Some 20.0, Some 24.5],
      precipitation = [Some 9.0, Some 0.0],
      windspeed_max = [Some 1.0, Some 12.5]\<rparr>"

definition EMPTY_DB :: "unit database" where
  "EMPTY_DB = \<lparr>raw_weather = [], daily_summary = []\<rparr>"


text \<open>
  Servers: one that always answers with the status \<open>s\<close> and no \<^verbatim>\<open>Retry-After\<close>
  header, one that answers 503 twice and then 200 with a body, and one that answers 413
  with \<^verbatim>\<open>Retry-After: 7\<close> once and then 200 with a body.
\<close>

definition always :: "nat \<Rightarrow> nat \<Rightarrow> unit response" where
  "always s i = \<lparr>status_code = s, retry_after = None, json = ()\<rparr>"

definition recovering :: "nat \<Rightarrow> string response" where
  "recovering i = (if i < 2 then \<lparr>status_code = 503, retry_after = None, json = []\<rparr>
                   else \<lparr>status_code = 200, retry_after = None, json = ''data''\<rparr>)"

definition throttled :: "nat \<Rightarrow> string response" where
  "throttled i = (if i < 1 then \<lparr>status_code = 413, retry_after = Some 7, json = []\<rparr>
                  else \<lparr>status_code = 200, retry_after = None, json = ''data''\<rparr>)"

text \<open>The page before the first refresh: nothing loaded, the banner hidden.\<close>

definition INITIAL_PAGE :: "(raw_weather_row, unit) page" where
  "INITIAL_PAGE = \<lparr>raw_content = Placeholder [], summary_content = Placeholder [],
     banner_children = [], banner_style = BANNER_HIDDEN\<rparr>"

section \<open>Properties\<close>

subsection \<open>The Normalizer\<close>

lemma to_datetime_length: "to_datetime t = Inr d \<Longrightarrow> length d = length t"
  by (induction t arbitrary: d) (auto split: option.splits sum.splits)

lemma to_datetime_nth:
  "to_datetime t = Inr d \<Longrightarrow> i < length t \<Longrightarrow> parse_iso_date (t ! i) = Some (d ! i)"
proof (induction t arbitrary: d i)
  case Nil
  then show ?case by simp
next
  case (Cons s ss)
  then show ?case
    by (cases i) (auto split: option.splits sum.splits)
qed

lemma to_datetime_parsed:
  "list_all (\<lambda>s. parse_iso_date s \<noteq> None) t \<Longrightarrow> \<exists>d. to_datetime t = Inr d"
  by (induction t) auto

lemma to_datetime_unparsed:
  "\<not> list_all (\<lambda>s. parse_iso_date s \<noteq> None) t \<Longrightarrow> \<exists>e. to_datetime t = Inl e"
  by (induction t) (auto split: option.splits sum.splits)

lemma transform_eq:
  assumes "raw_data ''daily'' = Some dl"
    and "time dl = Some t" and "temperature_2m_max dl = Some tmax"
    and "temperature_2m_min dl = Some tmin" and "precipitation_sum dl = Some p"
    and "windspeed_10m_max dl = Some w"
    and "length tmax = length t" and "length tmin = length t"
    and "length p = length t" and "length w = length t"
    and "to_datetime t = Inr d"
  shows "transform raw_data =
    Inr (\<lparr>city = replicate (length t) CITY, date = d, temperature_max = tmax,
           temperature_min = tmin, precipitation = fillna 0 p, windspeed_max = w\<rparr>,
         build_summary \<lparr>city = replicate (length t) CITY, date = d, temperature_max = tmax,
           temperature_min = tmin, precipitation = fillna 0 p, windspeed_max = w\<rparr>)"
  using assms to_datetime_length [of t d]
  by (simp add: transform_def get_daily_def DataFrame_def Let_def)

lemma transform_Inr_D:
  assumes "transform raw_data = Inr r"
  shows "\<exists>dl t tmax tmin p w. raw_data ''daily'' = Some dl \<and> time dl = Some t
     \<and> temperature_2m_max dl = Some tmax \<and> temperature_2m_min dl = Some tmin
     \<and> precipitation_sum dl = Some p \<and> windspeed_10m_max dl = Some w
     \<and> length tmax = length t \<and> length tmin = length t \<and> length p = length t
     \<and> length w = length t \<and> list_all (\<lambda>s. parse_iso_date s \<noteq> None) t"
proof (cases "raw_data ''daily''")
  case None
  with assms show ?thesis
    by (simp add: transform_def get_daily_def empty_dict_def)
next
  case (Some dl)
  from assms Some obtain t where t: "time dl = Some t"
    by (cases "time dl") (auto simp: transform_def get_daily_def)
  have parsed: "list_all (\<lambda>s. parse_iso_date s \<noteq> None) t"
  proof (rule ccontr)
    assume "\<not> ?thesis"
    then obtain e where "to_datetime t = Inl e" using to_datetime_unparsed by blast
    with assms Some t show False by (simp add: transform_def get_daily_def)
  qed
  then obtain d where d: "to_datetime t = Inr d" using to_datetime_parsed by blast
  from assms Some t d obtain tmax where tmax: "temperature_2m_max dl = Some tmax"
    by (cases "temperature_2m_max dl") (auto simp: transform_def get_daily_def)
  from assms Some t d tmax obtain tmin where tmin: "temperature_2m_min dl = Some tmin"
    by (cases "temperature_2m_min dl") (auto simp: transform_def get_daily_def)
  from assms Some t d tmax tmin obtain p where p: "precipitation_sum dl = Some p"
    by (cases "precipitation_sum dl") (auto simp: transform_def get_daily_def)
  from assms Some t d tmax tmin p obtain w where w: "windspeed_10m_max dl = Some w"
    by (cases "windspeed_10m_max dl") (auto simp: transform_def get_daily_def)
  from assms Some t d tmax tmin p w to_datetime_length [OF d]
  have "length tmax = length t \<and> length tmin = length t \<and> length p = length t \<and> length w = length t"
    by (simp add: transform_def get_daily_def DataFrame_def split: if_splits)
  with Some t tmax tmin p w parsed show ?thesis by simp
qed


lemma fillna_length: "length (fillna v col) = length col"
  by (simp add: fillna_def)

lemma fillna_nth:
  "i < length col \<Longrightarrow> fillna v col ! i = (case col ! i of None \<Rightarrow> Some v | Some y \<Rightarrow> Some y)"
  by (simp add: fillna_def)

lemma avg_nth:
  assumes "i < length xs" and "length ys = length xs"
  shows "div_series (add_series xs ys) 2 ! i =
    (case (xs ! i, ys ! i) of (Some a, Some b) \<Rightarrow> Some ((a + b) / 2) | _ \<Rightarrow> None)"
  using assms
  by (cases "xs ! i"; cases "ys ! i") (simp_all add: div_series_def add_series_def)

text \<open>
  C2. On a well-formed response (the five series present, of one length, the dates ISO
  dates) \<open>transform\<close> returns, no cell of \<open>precipitation\<close> is null, a null
  \<^verbatim>\<open>precipitation_sum\<close> cell having become \<open>0\<close> and every other cell being kept, and
  \<open>temperature_max\<close>, \<open>temperature_min\<close> and \<open>windspeed_max\<close> are the input series
  unchanged, null cells included.
\<close>

theorem transform_null_handling:
  assumes "raw_data ''daily'' = Some dl"
    and "time dl = Some t" and "temperature_2m_max dl = Some tmax"
    and "temperature_2m_min dl = Some tmin" and "precipitation_sum dl = Some p"
    and "windspeed_10m_max dl = Some w"
    and "length tmax = length t" and "length tmin = length t"
    and "length p = length t" and "length w = length t"
    and "list_all (\<lambda>s. parse_iso_date s \<noteq> None) t"
  shows "\<exists>df sm. transform raw_data = Inr (df, sm)
    \<and> list_all (\<lambda>x. x \<noteq> None) (precipitation df)
    \<and> precipitation df = map (\<lambda>x. case x of None \<Rightarrow> Some 0 | Some y \<Rightarrow> Some y) p
    \<and> temperature_max df = tmax \<and> temperature_min df = tmin \<and> windspeed_max df = w"
proof -
  from assms(11) obtain d where d: "to_datetime t = Inr d" using to_datetime_parsed by blast
  have "list_all (\<lambda>x. x \<noteq> None) (fillna 0 p)"
    by (auto simp: fillna_def list_all_iff split: option.splits)
  moreover from assms(1-10) d have "transform raw_data =
    Inr (\<lparr>city = replicate (length t) CITY, date = d, temperature_max = tmax,
           temperature_min = tmin, precipitation = fillna 0 p, windspeed_max = w\<rparr>,
         build_summary \<lparr>city = replicate (length t) CITY, date = d, temperature_max = tmax,
           temperature_min = tmin, precipitation = fillna 0 p, windspeed_max = w\<rparr>)"
    by (rule transform_eq)
  ultimately show ?thesis
    by (simp add: fillna_def)
qed

theorem transform_null_handling_witness:
  "\<exists>df sm. transform MOCK_API_RESPONSE = Inr (df, sm)
    \<and> precipitation df = [Some 0, Some 5.2, Some 0]
    \<and> temperature_max df = [Some 32, Some 33.5, Some 31]
    \<and> temperature_min df = [Some 25, Some 26, Some 24.5]
    \<and> windspeed_max df = [Some 15, Some 20, Some 12.5]"
  using transform_null_handling [of MOCK_API_RESPONSE
      "the (MOCK_API_RESPONSE ''daily'')"
      "[''2024-01-01'', ''2024-01-02'', ''2024-01-03'']"
      "[Some 32.0, Some 33.5, Some 31.0]" "[Some 25.0, Some 26.0, Some 24.5]"
      "[Some 0.0, Some 5.2, None]" "[Some 15.0, Some 20.0, Some 12.5]"]
  by (auto simp: MOCK_API_RESPONSE_def parse_iso_date_def digits_def is_digit_def
      days_in_month_def leap_year_def)

text \<open>
  C3. On a well-formed response whose five series have length \<open>N\<close>, \<open>transform\<close>
  returns a raw table and a summary table of \<open>N\<close> rows each, every column of length
  \<open>N\<close>. Row \<open>i\<close> of both tables is built from index \<open>i\<close> of the series: the city is
  \<open>CITY\<close>, the date is the date parsed from \<open>time[i]\<close>. With \<open>N = 0\<close> both tables
  are empty.
\<close>

theorem transform_row_count:
  assumes "raw_data ''daily'' = Some dl"
    and "time dl = Some t" and "temperature_2m_max dl = Some tmax"
    and "temperature_2m_min dl = Some tmin" and "precipitation_sum dl = Some p"
    and "windspeed_10m_max dl = Some w"
    and "length tmax = length t" and "length tmin = length t"
    and "length p = length t" and "length w = length t"
    and "list_all (\<lambda>s. parse_iso_date s \<noteq> None) t"
  shows "\<exists>df sm. transform raw_data = Inr (df, sm)
    \<and> len df = length t \<and> len_summary sm = length t
    \<and> length (to_dict_records df) = length t
    \<and> length (city df) = length t \<and> length (date df) = length t
    \<and> length (temperature_max df) = length t \<and> length (temperature_min df) = length t
    \<and> length (precipitation df) = length t \<and> length (windspeed_max df) = length t
    \<and> length (summary_city sm) = length t \<and> length (summary_date sm) = length t
    \<and> length (avg_temperature sm) = length t \<and> length (total_precipitation sm) = length t
    \<and> length (max_windspeed sm) = length t
    \<and> (\<forall>i<length t.
          city df ! i = CITY
        \<and> parse_iso_date (t ! i) = Some (date df ! i)
        \<and> temperature_max df ! i = tmax ! i
        \<and> temperature_min df ! i = tmin ! i
        \<and> precipitation df ! i = (case p ! i of None \<Rightarrow> Some 0 | Some y \<Rightarrow> Some y)
        \<and> windspeed_max df ! i = w ! i
        \<and> summary_city sm ! i = CITY
        \<and> summary_date sm ! i = date df ! i
        \<and> avg_temperature sm ! i =
            (case (tmax ! i, tmin ! i) of (Some a, Some b) \<Rightarrow> Some ((a + b) / 2) | _ \<Rightarrow> None)
        \<and> total_precipitation sm ! i = precipitation df ! i
        \<and> max_windspeed sm ! i = w ! i)
    \<and> (t = [] \<longrightarrow> to_dict_records df = [] \<and> len df = 0 \<and> len_summary sm = 0)"
proof -
  from assms(11) obtain d where d: "to_datetime t = Inr d" using to_datetime_parsed by blast
  define df where "df = \<lparr>city = replicate (length t) CITY, date = d, temperature_max = tmax,
    temperature_min = tmin, precipitation = fillna 0 p, windspeed_max = w\<rparr>"
  from assms(1-10) d have tr: "transform raw_data = Inr (df, build_summary df)"
    unfolding df_def by (rule transform_eq)
  have ld: "length d = length t" using d by (rule to_datetime_length)
  have lens: "len df = length t" "len_summary (build_summary df) = length t"
    by (simp_all add: df_def len_def len_summary_def build_summary_def ld)
  have recs: "length (to_dict_records df) = length t"
    using assms(7-10) by (simp add: df_def to_dict_records_def ld fillna_length)
  have cols: "length (city df) = length t" "length (date df) = length t"
    "length (temperature_max df) = length t" "length (temperature_min df) = length t"
    "length (precipitation df) = length t" "length (windspeed_max df) = length t"
    using assms(7-10) by (simp_all add: df_def ld fillna_length)
  have scols: "length (summary_city (build_summary df)) = length t"
    "length (summary_date (build_summary df)) = length t"
    "length (avg_temperature (build_summary df)) = length t"
    "length (total_precipitation (build_summary df)) = length t"
    "length (max_windspeed (build_summary df)) = length t"
    using assms(7-10)
    by (simp_all add: df_def build_summary_def ld fillna_length div_series_def add_series_def)
  have rows: "\<forall>i<length t.
          city df ! i = CITY
        \<and> parse_iso_date (t ! i) = Some (date df ! i)
        \<and> temperature_max df ! i = tmax ! i
        \<and> temperature_min df ! i = tmin ! i
        \<and> precipitation df ! i = (case p ! i of None \<Rightarrow> Some 0 | Some y \<Rightarrow> Some y)
        \<and> windspeed_max df ! i = w ! i
        \<and> summary_city (build_summary df) ! i = CITY
        \<and> summary_date (build_summary df) ! i = date df ! i
        \<and> avg_temperature (build_summary df) ! i =
            (case (tmax ! i, tmin ! i) of (Some a, Some b) \<Rightarrow> Some ((a + b) / 2) | _ \<Rightarrow> None)
        \<and> total_precipitation (build_summary df) ! i = precipitation df ! i
        \<and> max_windspeed (build_summary df) ! i = w ! i"
  proof (intro allI impI)
    fix i assume i: "i < length t"
    have "parse_iso_date (t ! i) = Some (d ! i)" using d i by (rule to_datetime_nth)
    moreover have "fillna 0 p ! i = (case p ! i of None \<Rightarrow> Some 0 | Some y \<Rightarrow> Some y)"
      using i assms(9) by (simp add: fillna_nth)
    moreover have "div_series (add_series tmax tmin) 2 ! i =
        (case (tmax ! i, tmin ! i) of (Some a, Some b) \<Rightarrow> Some ((a + b) / 2) | _ \<Rightarrow> None)"
      using i assms(7,8) by (simp add: avg_nth)
    ultimately show "city df ! i = CITY
        \<and> parse_iso_date (t ! i) = Some (date df ! i)
        \<and> temperature_max df ! i = tmax ! i
        \<and> temperature_min df ! i = tmin ! i
        \<and> precipitation df ! i = (case p ! i of None \<Rightarrow> Some 0 | Some y \<Rightarrow> Some y)
        \<and> windspeed_max df ! i = w ! i
        \<and> summary_city (build_summary df) ! i = CITY
        \<and> summary_date (build_summary df) ! i = date df ! i
        \<and> avg_temperature (build_summary df) ! i =
            (case (tmax ! i, tmin ! i) of (Some a, Some b) \<Rightarrow> Some ((a + b) / 2) | _ \<Rightarrow> None)
        \<and> total_precipitation (build_summary df) ! i = precipitation df ! i
        \<and> max_windspeed (build_summary df) ! i = w ! i"
      using i by (simp add: df_def build_summary_def)
  qed
  have empty: "t = [] \<longrightarrow> to_dict_records df = [] \<and> len df = 0 \<and> len_summary (build_summary df) = 0"
    using recs lens by auto
  from tr lens recs cols scols rows empty show ?thesis by blast
qed

theorem transform_row_count_witness:
  "\<exists>df sm. transform MOCK_API_RESPONSE = Inr (df, sm) \<and> len df = 3 \<and> len_summary sm = 3
     \<and> length (to_dict_records df) = 3
     \<and> date df ! 2 = \<lparr>year = 2024, month = 1, day = 3\<rparr>
     \<and> summary_date sm ! 2 = \<lparr>year = 2024, month = 1, day = 3\<rparr>
     \<and> city df ! 2 = ''Singapore'' \<and> avg_temperature sm ! 2 = Some 27.75"
proof -
  define t where "t = [''2024-01-01'', ''2024-01-02'', ''2024-01-03'']"
  define tmax :: "real option list" where "tmax = [Some 32.0, Some 33.5, Some 31.0]"
  define tmin :: "real option list" where "tmin = [Some 25.0, Some 26.0, Some 24.5]"
  define p :: "real option list" where "p = [Some 0.0, Some 5.2, None]"
  define w :: "real option list" where "w = [Some 15.0, Some 20.0, Some 12.5]"
  define dl where "dl = \<lparr>time = Some t, temperature_2m_max = Some tmax,
    temperature_2m_min = Some tmin, precipitation_sum = Some p, windspeed_10m_max = Some w\<rparr>"
  have h1: "MOCK_API_RESPONSE ''daily'' = Some dl"
    by (simp add: MOCK_API_RESPONSE_def dl_def t_def tmax_def tmin_def p_def w_def)
  have h2: "time dl = Some t" "temperature_2m_max dl = Some tmax"
    "temperature_2m_min dl = Some tmin" "precipitation_sum dl = Some p"
    "windspeed_10m_max dl = Some w"
    by (simp_all add: dl_def)
  have h3: "length tmax = length t" "length tmin = length t" "length p = length t"
    "length w = length t"
    by (simp_all add: t_def tmax_def tmin_def p_def w_def)
  have p3: "parse_iso_date ''2024-01-03'' = Some \<lparr>year = 2024, month = 1, day = 3\<rparr>"
    by (simp add: parse_iso_date_def digits_def is_digit_def days_in_month_def leap_year_def)
  have h4: "list_all (\<lambda>s. parse_iso_date s \<noteq> None) t"
    by (simp add: t_def parse_iso_date_def digits_def is_digit_def days_in_month_def
        leap_year_def)
  from transform_row_count [of MOCK_API_RESPONSE dl t tmax tmin p w, OF h1 h2 h3 h4]
  obtain df sm where tr: "transform MOCK_API_RESPONSE = Inr (df, sm)"
    and lens: "len df = length t" "len_summary sm = length t"
      "length (to_dict_records df) = length t"
    and rows: "\<forall>i<length t.
          city df ! i = CITY
        \<and> parse_iso_date (t ! i) = Some (date df ! i)
        \<and> temperature_max df ! i = tmax ! i
        \<and> temperature_min df ! i = tmin ! i
        \<and> precipitation df ! i = (case p ! i of None \<Rightarrow> Some 0 | Some y \<Rightarrow> Some y)
        \<and> windspeed_max df ! i = w ! i
        \<and> summary_city sm ! i = CITY
        \<and> summary_date sm ! i = date df ! i
        \<and> avg_temperature sm ! i =
            (case (tmax ! i, tmin ! i) of (Some a, Some b) \<Rightarrow> Some ((a + b) / 2) | _ \<Rightarrow> None)
        \<and> total_precipitation sm ! i = precipitation df ! i
        \<and> max_windspeed sm ! i = w ! i"
    by blast
  have "(2::nat) < length t" by (simp add: t_def)
  with rows have r: "city df ! 2 = CITY" "parse_iso_date (t ! 2) = Some (date df ! 2)"
    "summary_date sm ! 2 = date df ! 2"
    "avg_temperature sm ! 2 =
       (case (tmax ! 2, tmin ! 2) of (Some a, Some b) \<Rightarrow> Some ((a + b) / 2) | _ \<Rightarrow> None)"
    by blast+
  have "date df ! 2 = \<lparr>year = 2024, month = 1, day = 3\<rparr>"
    using r(2) p3 by (simp add: t_def)
  moreover have "avg_temperature sm ! 2 = Some 27.75"
    using r(4) by (simp add: tmax_def tmin_def)
  moreover have "len df = 3" "len_summary sm = 3" "length (to_dict_records df) = 3"
    using lens by (simp_all add: t_def)
  ultimately show ?thesis using tr r(1,3) by (simp add: CITY_def)
qed

text \<open>
  C4. In every row that \<open>transform\<close> produces, \<open>total_precipitation\<close> is the row's
  \<open>precipitation\<close> (after the zero fill) and \<open>max_windspeed\<close> its \<open>windspeed_max\<close>,
  exactly, and \<open>avg_temperature\<close> is \<open>(temperature_max + temperature_min) / 2\<close>, null
  when either temperature is null.
\<close>

theorem transform_summary_formulas:
  assumes "raw_data ''daily'' = Some dl"
    and "time dl = Some t" and "temperature_2m_max dl = Some tmax"
    and "temperature_2m_min dl = Some tmin" and "precipitation_sum dl = Some p"
    and "windspeed_10m_max dl = Some w"
    and "length tmax = length t" and "length tmin = length t"
    and "length p = length t" and "length w = length t"
    and "list_all (\<lambda>s. parse_iso_date s \<noteq> None) t"
  shows "\<exists>df sm. transform raw_data = Inr (df, sm)
    \<and> total_precipitation sm = precipitation df
    \<and> max_windspeed sm = windspeed_max df
    \<and> length (avg_temperature sm) = len df
    \<and> (\<forall>i<len df. avg_temperature sm ! i =
          (case (temperature_max df ! i, temperature_min df ! i) of
             (Some a, Some b) \<Rightarrow> Some ((a + b) / 2)
           | _ \<Rightarrow> None))"
proof -
  from assms(11) obtain d where d: "to_datetime t = Inr d" using to_datetime_parsed by blast
  define df where "df = \<lparr>city = replicate (length t) CITY, date = d, temperature_max = tmax,
    temperature_min = tmin, precipitation = fillna 0 p, windspeed_max = w\<rparr>"
  from assms(1-10) d have tr: "transform raw_data = Inr (df, build_summary df)"
    unfolding df_def by (rule transform_eq)
  have ld: "length d = length t" using d by (rule to_datetime_length)
  have n: "len df = length t" by (simp add: df_def len_def ld)
  have pass: "total_precipitation (build_summary df) = precipitation df"
    "max_windspeed (build_summary df) = windspeed_max df"
    by (simp_all add: build_summary_def)
  have la: "length (avg_temperature (build_summary df)) = len df"
    using assms(7,8) by (simp add: build_summary_def df_def div_series_def add_series_def len_def ld)
  have avg: "\<forall>i<len df. avg_temperature (build_summary df) ! i =
          (case (temperature_max df ! i, temperature_min df ! i) of
             (Some a, Some b) \<Rightarrow> Some ((a + b) / 2)
           | _ \<Rightarrow> None)"
    using assms(7,8) by (simp add: build_summary_def df_def avg_nth len_def ld)
  from tr pass la avg show ?thesis by blast
qed

theorem transform_summary_formulas_witness:
  "\<exists>df sm. transform MOCK_API_RESPONSE = Inr (df, sm)
     \<and> total_precipitation sm = precipitation df
     \<and> max_windspeed sm = windspeed_max df
     \<and> avg_temperature sm ! 0 = Some 28.5"
proof -
  define t where "t = [''2024-01-01'', ''2024-01-02'', ''2024-01-03'']"
  define tmax :: "real option list" where "tmax = [Some 32.0, Some 33.5, Some 31.0]"
  define tmin :: "real option list" where "tmin = [Some 25.0, Some 26.0, Some 24.5]"
  define p :: "real option list" where "p = [Some 0.0, Some 5.2, None]"
  define w :: "real option list" where "w = [Some 15.0, Some 20.0, Some 12.5]"
  define dl where "dl = \<lparr>time = Some t, temperature_2m_max = Some tmax,
    temperature_2m_min = Some tmin, precipitation_sum = Some p, windspeed_10m_max = Some w\<rparr>"
  have h1: "MOCK_API_RESPONSE ''daily'' = Some dl"
    by (simp add: MOCK_API_RESPONSE_def dl_def t_def tmax_def tmin_def p_def w_def)
  have h2: "time dl = Some t" "temperature_2m_max dl = Some tmax"
    "temperature_2m_min dl = Some tmin" "precipitation_sum dl = Some p"
    "windspeed_10m_max dl = Some w"
    by (simp_all add: dl_def)
  have h3: "length tmax = length t" "length tmin = length t" "length p = length t"
    "length w = length t"
    by (simp_all add: t_def tmax_def tmin_def p_def w_def)
  have h4: "list_all (\<lambda>s. parse_iso_date s \<noteq> None) t"
    by (simp add: t_def parse_iso_date_def digits_def is_digit_def days_in_month_def
        leap_year_def)
  from transform_summary_formulas [of MOCK_API_RESPONSE dl t tmax tmin p w, OF h1 h2 h3 h4]
  obtain df sm where tr: "transform MOCK_API_RESPONSE = Inr (df, sm)"
    and pass: "total_precipitation sm = precipitation df" "max_windspeed sm = windspeed_max df"
    and avg: "\<forall>i<len df. avg_temperature sm ! i =
          (case (temperature_max df ! i, temperature_min df ! i) of
             (Some a, Some b) \<Rightarrow> Some ((a + b) / 2)
           | _ \<Rightarrow> None)"
    by blast
  from h1 h2 h3 have eq: "transform MOCK_API_RESPONSE = Inr (df, sm) \<Longrightarrow>
      len df = 3 \<and> temperature_max df ! 0 = Some 32 \<and> temperature_min df ! 0 = Some 25"
    by (auto simp: transform_def get_daily_def DataFrame_def Let_def len_def t_def tmax_def
        tmin_def p_def w_def parse_iso_date_def digits_def is_digit_def days_in_month_def
        leap_year_def)
  from eq [OF tr] avg have "avg_temperature sm ! 0 = Some 28.5" by simp
  with tr pass show ?thesis by blast
qed

text \<open>
  C5. \<open>transform\<close> raises when the response has no \<^verbatim>\<open>daily\<close> mapping (\<^verbatim>\<open>KeyError\<close>
  on \<^verbatim>\<open>time\<close>) and when its \<^verbatim>\<open>daily\<close> mapping lacks any of the five series; on every
  well-formed response (the five series present in \<^verbatim>\<open>daily\<close>, of one length, the dates
  ISO dates) it returns; and on five present, empty series it returns two empty tables.
\<close>

theorem transform_raises_iff_malformed:
  "(raw_data ''daily'' = None \<longrightarrow> transform raw_data = Inl (KeyError ''time''))
   \<and> (raw_data ''daily'' = Some dl
        \<and> (time dl = None \<or> temperature_2m_max dl = None \<or> temperature_2m_min dl = None
            \<or> precipitation_sum dl = None \<or> windspeed_10m_max dl = None)
      \<longrightarrow> (\<exists>e. transform raw_data = Inl e))
   \<and> (raw_data ''daily'' = Some dl \<and> time dl = None
      \<longrightarrow> transform raw_data = Inl (KeyError ''time''))
   \<and> (raw_data ''daily'' = Some dl
        \<and> time dl = Some t \<and> temperature_2m_max dl = Some tmax
        \<and> temperature_2m_min dl = Some tmin \<and> precipitation_sum dl = Some p
        \<and> windspeed_10m_max dl = Some w
        \<and> length tmax = length t \<and> length tmin = length t
        \<and> length p = length t \<and> length w = length t
        \<and> list_all (\<lambda>s. parse_iso_date s \<noteq> None) t
      \<longrightarrow> (\<exists>df sm. transform raw_data = Inr (df, sm)))
   \<and> (raw_data ''daily'' = Some dl
        \<and> time dl = Some [] \<and> temperature_2m_max dl = Some []
        \<and> temperature_2m_min dl = Some [] \<and> precipitation_sum dl = Some []
        \<and> windspeed_10m_max dl = Some []
      \<longrightarrow> transform raw_data =
            Inr (\<lparr>city = [], date = [], temperature_max = [], temperature_min = [],
                   precipitation = [], windspeed_max = []\<rparr>,
                 \<lparr>summary_city = [], summary_date = [], avg_temperature = [],
                   total_precipitation = [], max_windspeed = []\<rparr>))"
proof (intro conjI impI)
  assume "raw_data ''daily'' = None"
  then show "transform raw_data = Inl (KeyError ''time'')"
    by (simp add: transform_def get_daily_def empty_dict_def)
next
  assume absent: "raw_data ''daily'' = Some dl
        \<and> (time dl = None \<or> temperature_2m_max dl = None \<or> temperature_2m_min dl = None
            \<or> precipitation_sum dl = None \<or> windspeed_10m_max dl = None)"
  show "\<exists>e. transform raw_data = Inl e"
  proof (cases "transform raw_data")
    case (Inl e)
    then show ?thesis by blast
  next
    case (Inr r)
    from transform_Inr_D [OF Inr] absent show ?thesis by auto
  qed
next
  assume "raw_data ''daily'' = Some dl \<and> time dl = None"
  then show "transform raw_data = Inl (KeyError ''time'')"
    by (simp add: transform_def get_daily_def)
next
  assume wf: "raw_data ''daily'' = Some dl
        \<and> time dl = Some t \<and> temperature_2m_max dl = Some tmax
        \<and> temperature_2m_min dl = Some tmin \<and> precipitation_sum dl = Some p
        \<and> windspeed_10m_max dl = Some w
        \<and> length tmax = length t \<and> length tmin = length t
        \<and> length p = length t \<and> length w = length t
        \<and> list_all (\<lambda>s. parse_iso_date s \<noteq> None) t"
  then obtain d where d: "to_datetime t = Inr d" using to_datetime_parsed by blast
  from wf d to_datetime_length [OF d] show "\<exists>df sm. transform raw_data = Inr (df, sm)"
    by (simp add: transform_def get_daily_def DataFrame_def Let_def)
next
  assume "raw_data ''daily'' = Some dl
        \<and> time dl = Some [] \<and> temperature_2m_max dl = Some []
        \<and> temperature_2m_min dl = Some [] \<and> precipitation_sum dl = Some []
        \<and> windspeed_10m_max dl = Some []"
  then show "transform raw_data =
            Inr (\<lparr>city = [], date = [], temperature_max = [], temperature_min = [],
                   precipitation = [], windspeed_max = []\<rparr>,
                 \<lparr>summary_city = [], summary_date = [], avg_temperature = [],
                   total_precipitation = [], max_windspeed = []\<rparr>)"
    by (simp add: transform_def get_daily_def DataFrame_def Let_def fillna_def build_summary_def
        add_series_def div_series_def)
qed

theorem transform_raises_iff_malformed_witness:
  "transform Map.empty = Inl (KeyError ''time'')
   \<and> (\<exists>df sm. transform MOCK_API_RESPONSE = Inr (df, sm))
   \<and> transform MOCK_EMPTY_RESPONSE =
            Inr (\<lparr>city = [], date = [], temperature_max = [], temperature_min = [],
                   precipitation = [], windspeed_max = []\<rparr>,
                 \<lparr>summary_city = [], summary_date = [], avg_temperature = [],
                   total_precipitation = [], max_windspeed = []\<rparr>)
   \<and> (\<exists>e. transform [''daily'' \<mapsto> \<lparr>time = Some [''2024-01-01''],
          temperature_2m_max = Some [Some 32.0], temperature_2m_min = Some [Some 25.0],
          precipitation_sum = None, windspeed_10m_max = Some [Some 15.0]\<rparr>] = Inl e)"
proof -
  have a: "transform Map.empty = Inl (KeyError ''time'')"
    using transform_raises_iff_malformed [of Map.empty] by simp
  have b: "\<exists>df sm. transform MOCK_API_RESPONSE = Inr (df, sm)"
    using transform_raises_iff_malformed [of MOCK_API_RESPONSE
        "the (MOCK_API_RESPONSE ''daily'')"
        "[''2024-01-01'', ''2024-01-02'', ''2024-01-03'']"
        "[Some 32.0, Some 33.5, Some 31.0]" "[Some 25.0, Some 26.0, Some 24.5]"
        "[Some 0.0, Some 5.2, None]" "[Some 15.0, Some 20.0, Some 12.5]"]
    by (simp add: MOCK_API_RESPONSE_def parse_iso_date_def digits_def is_digit_def
        days_in_month_def leap_year_def)
  have c: "transform MOCK_EMPTY_RESPONSE =
            Inr (\<lparr>city = [], date = [], temperature_max = [], temperature_min = [],
                   precipitation = [], windspeed_max = []\<rparr>,
                 \<lparr>summary_city = [], summary_date = [], avg_temperature = [],
                   total_precipitation = [], max_windspeed = []\<rparr>)"
    using transform_raises_iff_malformed [of MOCK_EMPTY_RESPONSE
        "the (MOCK_EMPTY_RESPONSE ''daily'')"]
    by (simp add: MOCK_EMPTY_RESPONSE_def)
  have d: "\<exists>e. transform [''daily'' \<mapsto> \<lparr>time = Some [''2024-01-01''],
          temperature_2m_max = Some [Some 32.0], temperature_2m_min = Some [Some 25.0],
          precipitation_sum = None, windspeed_10m_max = Some [Some 15.0]\<rparr>] = Inl e"
    using transform_raises_iff_malformed [of "[''daily'' \<mapsto> \<lparr>time = Some [''2024-01-01''],
          temperature_2m_max = Some [Some 32.0], temperature_2m_min = Some [Some 25.0],
          precipitation_sum = None, windspeed_10m_max = Some [Some 15.0]\<rparr>]"
        "\<lparr>time = Some [''2024-01-01''],
          temperature_2m_max = Some [Some 32.0], temperature_2m_min = Some [Some 25.0],
          precipitation_sum = None, windspeed_10m_max = Some [Some 15.0]\<rparr>"]
    by simp
  from a b c d show ?thesis by blast
qed

text \<open>
  C10. When the five series are present and not all of one length, \<open>transform\<close> raises:
  no table is returned. With parseable dates the error is the constructor's
  \<^verbatim>\<open>ValueError\<close>.
\<close>

theorem transform_unequal_lengths_raises:
  assumes "raw_data ''daily'' = Some dl"
    and "time dl = Some t" and "temperature_2m_max dl = Some tmax"
    and "temperature_2m_min dl = Some tmin" and "precipitation_sum dl = Some p"
    and "windspeed_10m_max dl = Some w"
    and "\<not> (length tmax = length t \<and> length tmin = length t
            \<and> length p = length t \<and> length w = length t)"
  shows "(\<exists>e. transform raw_data = Inl e)
    \<and> (list_all (\<lambda>s. parse_iso_date s \<noteq> None) t \<longrightarrow>
         transform raw_data = Inl (ValueError ''All arrays must be of the same length''))"
proof
  show "\<exists>e. transform raw_data = Inl e"
  proof (cases "transform raw_data")
    case (Inl e)
    then show ?thesis by blast
  next
    case (Inr r)
    from transform_Inr_D [OF Inr] assms show ?thesis by auto
  qed
next
  show "list_all (\<lambda>s. parse_iso_date s \<noteq> None) t \<longrightarrow>
         transform raw_data = Inl (ValueError ''All arrays must be of the same length'')"
  proof
    assume "list_all (\<lambda>s. parse_iso_date s \<noteq> None) t"
    then obtain d where d: "to_datetime t = Inr d" using to_datetime_parsed by blast
    from assms d to_datetime_length [OF d]
    show "transform raw_data = Inl (ValueError ''All arrays must be of the same length'')"
      by (auto simp: transform_def get_daily_def DataFrame_def)
  qed
qed

theorem transform_unequal_lengths_raises_witness:
  "transform MISALIGNED_RESPONSE = Inl (ValueError ''All arrays must be of the same length'')"
  using transform_unequal_lengths_raises [of MISALIGNED_RESPONSE
      "the (MISALIGNED_RESPONSE ''daily'')" "[''2024-01-01'', ''2024-01-02'']"
      "[Some 32.0, Some 33.0]" "[Some 25.0, Some 26.0]" "[Some 0.0]" "[Some 15.0, Some 20.0]"]
  by (simp add: MISALIGNED_RESPONSE_def parse_iso_date_def digits_def is_digit_def
      days_in_month_def leap_year_def)

subsection \<open>The Loader and the Quality Gate\<close>

lemma ocdn_append:
  "\<exists>new. fst (on_conflict_do_nothing tbl rs) = tbl @ new
     \<and> snd (on_conflict_do_nothing tbl rs) = length new \<and> set new \<subseteq> set rs"
proof (induction rs arbitrary: tbl)
  case Nil
  then show ?case by simp
next
  case (Cons r rs)
  show ?case
  proof (cases "key r \<in> key ` set tbl")
    case True
    with Cons [of tbl] show ?thesis by auto
  next
    case False
    from Cons [of "tbl @ [r]"] obtain new where
      new: "fst (on_conflict_do_nothing (tbl @ [r]) rs) = (tbl @ [r]) @ new"
        "snd (on_conflict_do_nothing (tbl @ [r]) rs) = length new" "set new \<subseteq> set rs"
      by blast
    with False have "fst (on_conflict_do_nothing tbl (r # rs)) = tbl @ (r # new)
      \<and> snd (on_conflict_do_nothing tbl (r # rs)) = length (r # new)
      \<and> set (r # new) \<subseteq> set (r # rs)"
      by (auto simp: case_prod_beta)
    then show ?thesis by blast
  qed
qed



lemma ocdn_distinct:
  "distinct (map key tbl) \<Longrightarrow> distinct (map key (fst (on_conflict_do_nothing tbl rs)))"
  by (induction rs arbitrary: tbl) (auto simp: case_prod_beta)


lemma ocdn_count:
  "snd (on_conflict_do_nothing tbl rs) = card (key ` set rs - key ` set tbl)"
proof (induction rs arbitrary: tbl)
  case Nil
  then show ?case by simp
next
  case (Cons r rs)
  show ?case
  proof (cases "key r \<in> key ` set tbl")
    case True
    then have "key ` set (r # rs) - key ` set tbl = key ` set rs - key ` set tbl" by auto
    with True Cons [of tbl] show ?thesis by simp
  next
    case False
    have eq: "key ` set (r # rs) - key ` set tbl =
        insert (key r) (key ` set rs - key ` set (tbl @ [r]))"
      using False by (auto simp: image_iff)
    have "key r \<notin> key ` set rs - key ` set (tbl @ [r])" by auto
    then have "card (key ` set (r # rs) - key ` set tbl) =
        Suc (card (key ` set rs - key ` set (tbl @ [r])))"
      unfolding eq by (subst card_insert_disjoint) auto
    with False Cons [of "tbl @ [r]"] show ?thesis by (simp add: case_prod_beta)
  qed
qed



lemma upsert_raw_fst:
  "raw_weather (fst (upsert_raw engine df)) =
     fst (on_conflict_do_nothing (raw_weather engine) (to_dict_records df))"
  "daily_summary (fst (upsert_raw engine df)) = daily_summary engine"
  by (simp_all add: upsert_raw_def case_prod_beta Let_def)


lemma upsert_raw_prefix: "prefix (raw_weather engine) (raw_weather (fst (upsert_raw engine df)))"
  using ocdn_append [of "raw_weather engine" "to_dict_records df"]
  by (auto simp: upsert_raw_fst)

lemma upsert_raw_distinct:
  "distinct (map key (raw_weather engine)) \<Longrightarrow>
     distinct (map key (raw_weather (fst (upsert_raw engine df))))"
  by (simp add: upsert_raw_fst ocdn_distinct)

lemma upsert_all_prefix: "prefix (raw_weather engine) (raw_weather (upsert_all engine dfs))"
proof (induction dfs arbitrary: engine)
  case Nil
  then show ?case by simp
next
  case (Cons df dfs)
  have "prefix (raw_weather engine) (raw_weather (fst (upsert_raw engine df)))"
    by (rule upsert_raw_prefix)
  also have "prefix \<dots> (raw_weather (upsert_all (fst (upsert_raw engine df)) dfs))"
    by (rule Cons.IH)
  finally show ?case by simp
qed

lemma upsert_all_distinct:
  "distinct (map key (raw_weather engine)) \<Longrightarrow>
     distinct (map key (raw_weather (upsert_all engine dfs)))"
  by (induction dfs arbitrary: engine) (simp_all add: upsert_raw_distinct)

lemma distinct_key_same:
  assumes "distinct (map key tbl)" and "r \<in> set tbl" and "r' \<in> set tbl" and "key r' = key r"
  shows "r' = r"
  using assms by (meson distinct_map inj_onD)




text \<open>
  C6. From a table in which \<open>(city, date)\<close> is unique, any sequence of \<open>upsert_raw\<close>
  calls leaves a table in which it is unique, and the rows stored at the start are still
  there, unchanged and in place: the old table is a prefix of the new one, and a row of
  the new table with the key of an old row is that old row.
\<close>

theorem upsert_all_invariant:
  assumes "distinct (map key (raw_weather engine))"
  shows "distinct (map key (raw_weather (upsert_all engine dfs)))
    \<and> prefix (raw_weather engine) (raw_weather (upsert_all engine dfs))
    \<and> (\<forall>r\<in>set (raw_weather engine). \<forall>r'\<in>set (raw_weather (upsert_all engine dfs)).
          key r' = key r \<longrightarrow> r' = r)"
proof (intro conjI ballI impI)
  show d: "distinct (map key (raw_weather (upsert_all engine dfs)))"
    using assms by (rule upsert_all_distinct)
  show p: "prefix (raw_weather engine) (raw_weather (upsert_all engine dfs))"
    by (rule upsert_all_prefix)
  fix r r'
  assume "r \<in> set (raw_weather engine)" and r': "r' \<in> set (raw_weather (upsert_all engine dfs))"
    and k: "key r' = key r"
  with p have rin: "r \<in> set (raw_weather (upsert_all engine dfs))"
    using set_mono_prefix by blast
  from d rin r' k show "r' = r" by (rule distinct_key_same)
qed

theorem upsert_all_invariant_witness:
  "distinct (map key (raw_weather (fst (upsert_raw EMPTY_DB SAMPLE_DF))))
   \<and> raw_weather (upsert_all (fst (upsert_raw EMPTY_DB SAMPLE_DF)) [CONFLICTING_DF, SAMPLE_DF])
      = to_dict_records SAMPLE_DF @
        [\<lparr>row_city = ''Singapore'', row_date = \<lparr>year = 2024, month = 1, day = 3\<rparr>,
          row_temperature_max = Some 31.0, row_temperature_min = Some 24.5,
          row_precipitation = Some 0.0, row_windspeed_max = Some 12.5\<rparr>]
   \<and> prefix (raw_weather (fst (upsert_raw EMPTY_DB SAMPLE_DF)))
        (raw_weather (upsert_all (fst (upsert_raw EMPTY_DB SAMPLE_DF)) [CONFLICTING_DF, SAMPLE_DF]))
   \<and> distinct (map key
        (raw_weather (upsert_all (fst (upsert_raw EMPTY_DB SAMPLE_DF)) [CONFLICTING_DF, SAMPLE_DF])))"
proof -
  have d: "distinct (map key (raw_weather (fst (upsert_raw EMPTY_DB SAMPLE_DF))))"
    by (simp add: upsert_raw_def to_dict_records_def SAMPLE_DF_def EMPTY_DB_def key_def)
  have v: "raw_weather (upsert_all (fst (upsert_raw EMPTY_DB SAMPLE_DF)) [CONFLICTING_DF, SAMPLE_DF])
      = to_dict_records SAMPLE_DF @
        [\<lparr>row_city = ''Singapore'', row_date = \<lparr>year = 2024, month = 1, day = 3\<rparr>,
          row_temperature_max = Some 31.0, row_temperature_min = Some 24.5,
          row_precipitation = Some 0.0, row_windspeed_max = Some 12.5\<rparr>]"
    by (simp add: upsert_raw_def to_dict_records_def SAMPLE_DF_def CONFLICTING_DF_def
        EMPTY_DB_def key_def)
  from upsert_all_invariant [OF d, of "[CONFLICTING_DF, SAMPLE_DF]"] d v show ?thesis
    by blast
qed

text \<open>
  C7, amended. \<open>load\<close> raises exactly when \<^verbatim>\<open>raw_weather\<close> has no row after the upsert.
  The quality check raises naming \<^verbatim>\<open>raw_weather\<close> exactly when that table is empty,
  raises naming \<^verbatim>\<open>daily_summary\<close> exactly when that table is empty and
  \<^verbatim>\<open>raw_weather\<close> is not, and succeeds exactly when both tables have a row.
\<close>

theorem quality_gates:
  "fst (load engine df) = fst (upsert_raw engine df)
   \<and> (snd (load engine df)
        = Inl (RuntimeError ''Data quality gate FAILED: raw_weather is empty after load'')
      \<longleftrightarrow> length (raw_weather (fst (upsert_raw engine df))) = 0)
   \<and> (snd (load engine df) = Inr ()
      \<longleftrightarrow> length (raw_weather (fst (upsert_raw engine df))) \<noteq> 0)
   \<and> (run_quality_check db = Inl (ValueError ''Quality gate FAILED: raw_weather has 0 rows'')
      \<longleftrightarrow> length (raw_weather db) = 0)
   \<and> (run_quality_check db = Inl (ValueError ''Quality gate FAILED: daily_summary has 0 rows'')
      \<longleftrightarrow> length (raw_weather db) \<noteq> 0 \<and> length (daily_summary db) = 0)
   \<and> (run_quality_check db = Inr ()
      \<longleftrightarrow> length (raw_weather db) \<noteq> 0 \<and> length (daily_summary db) \<noteq> 0)"
proof -
  have l: "fst (load engine df) = fst (upsert_raw engine df)"
    "snd (load engine df)
        = Inl (RuntimeError ''Data quality gate FAILED: raw_weather is empty after load'')
      \<longleftrightarrow> length (raw_weather (fst (upsert_raw engine df))) = 0"
    "snd (load engine df) = Inr ()
      \<longleftrightarrow> length (raw_weather (fst (upsert_raw engine df))) \<noteq> 0"
    by (simp_all add: load_def case_prod_beta Let_def)
  have q: "run_quality_check db = Inl (ValueError ''Quality gate FAILED: raw_weather has 0 rows'')
      \<longleftrightarrow> length (raw_weather db) = 0"
    "run_quality_check db = Inl (ValueError ''Quality gate FAILED: daily_summary has 0 rows'')
      \<longleftrightarrow> length (raw_weather db) \<noteq> 0 \<and> length (daily_summary db) = 0"
    "run_quality_check db = Inr ()
      \<longleftrightarrow> length (raw_weather db) \<noteq> 0 \<and> length (daily_summary db) \<noteq> 0"
    by (simp_all add: run_quality_check_def select_count_def)
  from l q show ?thesis by blast
qed

text \<open>
  C7, as stated, fails when both tables are empty: \<^verbatim>\<open>daily_summary\<close> has no row,
  and the error names \<^verbatim>\<open>raw_weather\<close>, the first table checked.
\<close>

theorem quality_check_both_empty_counterexample:
  "length (daily_summary EMPTY_DB) = 0
   \<and> run_quality_check EMPTY_DB = Inl (ValueError ''Quality gate FAILED: raw_weather has 0 rows'')
   \<and> run_quality_check EMPTY_DB \<noteq> Inl (ValueError ''Quality gate FAILED: daily_summary has 0 rows'')"
  by (simp add: run_quality_check_def select_count_def EMPTY_DB_def)

subsection \<open>The Fetcher\<close>

lemma is_retry_build_session:
  "is_retry (build_session\<lparr>total := k, history := h\<rparr>) r \<longleftrightarrow>
     status_code r \<in> {429, 500, 502, 503, 504}
     \<or> (k \<noteq> 0 \<and> status_code r = 413 \<and> retry_after r \<noteq> None)"
  by (auto simp: is_retry_def build_session_def RETRY_AFTER_STATUS_CODES_def)

lemma sleep_build_session:
  "sleep (build_session\<lparr>total := k, history := h\<rparr>) r =
     (case retry_after r of
        Some seconds \<Rightarrow>
          if seconds \<noteq> 0 then seconds
          else if length h \<le> 1 then 0 else min 120 (2 ^ (length h - 1))
      | None \<Rightarrow> if length h \<le> 1 then 0 else min 120 (2 ^ (length h - 1)))"
  by (simp add: sleep_def get_backoff_time_def build_session_def DEFAULT_BACKOFF_MAX_def
      split: option.splits)

lemma urlopen_retry:
  "urlopen (build_session\<lparr>total := Suc k, history := h\<rparr>) server i pauses =
     (if is_retry (build_session\<lparr>total := Suc k, history := h\<rparr>) (server i)
      then urlopen (build_session\<lparr>total := k, history := h @ [status_code (server i)]\<rparr>)
             server (Suc i)
             (pauses @ [sleep (build_session\<lparr>total := k,
                          history := h @ [status_code (server i)]\<rparr>) (server i)])
      else (Inr (server i), Suc i, pauses))"
  by (subst urlopen.simps) (simp add: increment_def)

lemma urlopen_exhausted:
  "urlopen (build_session\<lparr>total := 0, history := h\<rparr>) server i pauses =
     (if is_retry (build_session\<lparr>total := 0, history := h\<rparr>) (server i)
      then (Inl MaxRetryError, Suc i, pauses)
      else (Inr (server i), Suc i, pauses))"
  by (subst urlopen.simps) (simp add: increment_def)

lemma build_session_start: "build_session = build_session\<lparr>total := Suc (Suc (Suc 0)), history := []\<rparr>"
  by (simp add: build_session_def)

text \<open>
  C8, as stated, fails on the 5xx status 501: it is not in the force list, so the one
  request is not retried and \<^verbatim>\<open>raise_for_status\<close> raises.
\<close>

theorem extract_501_counterexample:
  "500 \<le> (501::nat) \<and> (501::nat) < 600
   \<and> extract_response (always 501) = (Inl (HTTPError 501), 1, [])"
  by (simp add: extract_response_def session_get_def build_session_def raise_for_status_def
      always_def urlopen.simps is_retry_def RETRY_AFTER_STATUS_CODES_def)

text \<open>
  C8, amended. A request is sent again exactly when fewer than 3 retries were made and the
  status of the response is 429, 500, 502, 503 or 504, or is 413 on a response with a
  \<^verbatim>\<open>Retry-After\<close> header: at most 4 requests are sent, every response but the last is
  such a response, and the last one is not unless it is the fourth. Before the retry of
  response \<open>i\<close> the transport pauses for the seconds of its \<^verbatim>\<open>Retry-After\<close> header
  when it has one that is not zero, and otherwise for the exponential backoff: \<open>0\<close>
  seconds for the first response, \<open>2 ^ i\<close> seconds after it. The call raises
  \<^verbatim>\<open>RetryError\<close> when the fourth response still has a status of the force list, raises
  \<^verbatim>\<open>HTTPError\<close> on any other 4xx or 5xx status, and returns the decoded body otherwise:
  an error status never gives a result.
\<close>

theorem extract_retry_policy:
  "(case extract_response server of (result, n, pauses) \<Rightarrow>
      1 \<le> n \<and> n \<le> 4 \<and> length pauses = n - 1
    \<and> (\<forall>i<n - 1. status_code (server i) \<in> {429, 500, 502, 503, 504}
          \<or> (status_code (server i) = 413 \<and> retry_after (server i) \<noteq> None))
    \<and> (n < 4 \<longrightarrow> status_code (server (n - 1)) \<notin> {429, 500, 502, 503, 504}
          \<and> (status_code (server (n - 1)) = 413 \<longrightarrow> retry_after (server (n - 1)) = None))
    \<and> (\<forall>i<n - 1. pauses ! i =
          (case retry_after (server i) of
             Some seconds \<Rightarrow> if seconds \<noteq> 0 then seconds else if i = 0 then 0 else 2 ^ i
           | None \<Rightarrow> if i = 0 then 0 else 2 ^ i))
    \<and> result =
        (if status_code (server (n - 1)) \<in> {429, 500, 502, 503, 504} then Inl RetryError
         else if 400 \<le> status_code (server (n - 1)) \<and> status_code (server (n - 1)) < 600
         then Inl (HTTPError (status_code (server (n - 1))))
         else Inr (json (server (n - 1)))))"
proof -
  define pause where "pause i =
     (case retry_after (server i) of
        Some seconds \<Rightarrow> if seconds \<noteq> 0 then seconds else if i = 0 then 0 else 2 ^ i
      | None \<Rightarrow> if i = 0 then (0::nat) else 2 ^ i)" for i
  define R3 where "R3 = build_session\<lparr>total := Suc (Suc (Suc 0)), history := []\<rparr>"
  define R2 where "R2 = build_session\<lparr>total := Suc (Suc 0),
    history := [] @ [status_code (server 0)]\<rparr>"
  define R1 where "R1 = build_session\<lparr>total := Suc 0,
    history := ([] @ [status_code (server 0)]) @ [status_code (server (Suc 0))]\<rparr>"
  define R0 where "R0 = build_session\<lparr>total := 0,
    history := (([] @ [status_code (server 0)]) @ [status_code (server (Suc 0))])
      @ [status_code (server (Suc (Suc 0)))]\<rparr>"
  have start: "build_session = R3"
    unfolding R3_def by (rule build_session_start)
  have e3: "urlopen R3 server 0 ps =
      (if is_retry R3 (server 0) then urlopen R2 server (Suc 0) (ps @ [sleep R2 (server 0)])
       else (Inr (server 0), Suc 0, ps))" for ps
    unfolding R3_def R2_def by (rule urlopen_retry)
  have e2: "urlopen R2 server (Suc 0) ps =
      (if is_retry R2 (server (Suc 0))
       then urlopen R1 server (Suc (Suc 0)) (ps @ [sleep R1 (server (Suc 0))])
       else (Inr (server (Suc 0)), Suc (Suc 0), ps))" for ps
    unfolding R2_def R1_def by (rule urlopen_retry)
  have e1: "urlopen R1 server (Suc (Suc 0)) ps =
      (if is_retry R1 (server (Suc (Suc 0)))
       then urlopen R0 server (Suc (Suc (Suc 0))) (ps @ [sleep R0 (server (Suc (Suc 0)))])
       else (Inr (server (Suc (Suc 0))), Suc (Suc (Suc 0)), ps))" for ps
    unfolding R1_def R0_def by (rule urlopen_retry)
  have e0: "urlopen R0 server (Suc (Suc (Suc 0))) ps =
      (if is_retry R0 (server (Suc (Suc (Suc 0))))
       then (Inl MaxRetryError, Suc (Suc (Suc (Suc 0))), ps)
       else (Inr (server (Suc (Suc (Suc 0)))), Suc (Suc (Suc (Suc 0))), ps))" for ps
    unfolding R0_def by (rule urlopen_exhausted)
  have i3: "is_retry R3 r \<longleftrightarrow> status_code r \<in> {429, 500, 502, 503, 504}
      \<or> (status_code r = 413 \<and> retry_after r \<noteq> None)" for r :: "'a response"
    unfolding R3_def by (simp add: is_retry_build_session)
  have i2: "is_retry R2 r \<longleftrightarrow> status_code r \<in> {429, 500, 502, 503, 504}
      \<or> (status_code r = 413 \<and> retry_after r \<noteq> None)" for r :: "'a response"
    unfolding R2_def by (simp add: is_retry_build_session)
  have i1: "is_retry R1 r \<longleftrightarrow> status_code r \<in> {429, 500, 502, 503, 504}
      \<or> (status_code r = 413 \<and> retry_after r \<noteq> None)" for r :: "'a response"
    unfolding R1_def by (simp add: is_retry_build_session)
  have i0: "is_retry R0 r \<longleftrightarrow> status_code r \<in> {429, 500, 502, 503, 504}"
    for r :: "'a response"
    unfolding R0_def by (simp add: is_retry_build_session)
  have p0: "sleep R2 (server 0) = pause 0"
    unfolding R2_def pause_def by (simp add: sleep_build_session split: option.splits)
  have p1: "sleep R1 (server (Suc 0)) = pause (Suc 0)"
    unfolding R1_def pause_def by (simp add: sleep_build_session split: option.splits)
  have p2: "sleep R0 (server (Suc (Suc 0))) = pause (Suc (Suc 0))"
    unfolding R0_def pause_def by (simp add: sleep_build_session split: option.splits)
  consider (a) "\<not> is_retry R3 (server 0)"
    | (b) "is_retry R3 (server 0)" "\<not> is_retry R2 (server (Suc 0))"
    | (c) "is_retry R3 (server 0)" "is_retry R2 (server (Suc 0))"
          "\<not> is_retry R1 (server (Suc (Suc 0)))"
    | (d) "is_retry R3 (server 0)" "is_retry R2 (server (Suc 0))"
          "is_retry R1 (server (Suc (Suc 0)))" "\<not> is_retry R0 (server (Suc (Suc (Suc 0))))"
    | (e) "is_retry R3 (server 0)" "is_retry R2 (server (Suc 0))"
          "is_retry R1 (server (Suc (Suc 0)))" "is_retry R0 (server (Suc (Suc (Suc 0))))"
    by blast
  then show ?thesis
  proof cases
    case a
    have "urlopen build_session server 0 [] = (Inr (server 0), Suc 0, [])"
      unfolding start by (simp add: e3 a)
    then have x: "extract_response server =
        (case raise_for_status (server 0) of Inl e \<Rightarrow> Inl e | Inr _ \<Rightarrow> Inr (json (server 0)),
         Suc 0, [])"
      by (simp add: extract_response_def session_get_def split: sum.splits)
    from a have "status_code (server 0) \<notin> {429, 500, 502, 503, 504}"
      "status_code (server 0) = 413 \<longrightarrow> retry_after (server 0) = None"
      unfolding i3 by blast+
    then show ?thesis unfolding x by (simp add: raise_for_status_def)
  next
    case b
    have "urlopen build_session server 0 [] = (Inr (server (Suc 0)), Suc (Suc 0), [pause 0])"
      unfolding start by (simp add: e3 e2 b p0)
    then have x: "extract_response server =
        (case raise_for_status (server (Suc 0)) of Inl e \<Rightarrow> Inl e
         | Inr _ \<Rightarrow> Inr (json (server (Suc 0))), Suc (Suc 0), [pause 0])"
      by (simp add: extract_response_def session_get_def split: sum.splits)
    from b have "status_code (server 0) \<in> {429, 500, 502, 503, 504}
          \<or> (status_code (server 0) = 413 \<and> retry_after (server 0) \<noteq> None)"
      "status_code (server (Suc 0)) \<notin> {429, 500, 502, 503, 504}"
      "status_code (server (Suc 0)) = 413 \<longrightarrow> retry_after (server (Suc 0)) = None"
      unfolding i3 i2 by blast+
    then show ?thesis unfolding x by (simp add: raise_for_status_def pause_def)
  next
    case c
    have "urlopen build_session server 0 [] =
        (Inr (server (Suc (Suc 0))), Suc (Suc (Suc 0)), [pause 0, pause (Suc 0)])"
      unfolding start by (simp add: e3 e2 e1 c p0 p1)
    then have x: "extract_response server =
        (case raise_for_status (server (Suc (Suc 0))) of Inl e \<Rightarrow> Inl e
         | Inr _ \<Rightarrow> Inr (json (server (Suc (Suc 0)))),
         Suc (Suc (Suc 0)), [pause 0, pause (Suc 0)])"
      by (simp add: extract_response_def session_get_def split: sum.splits)
    from c have "status_code (server 0) \<in> {429, 500, 502, 503, 504}
          \<or> (status_code (server 0) = 413 \<and> retry_after (server 0) \<noteq> None)"
      "status_code (server (Suc 0)) \<in> {429, 500, 502, 503, 504}
          \<or> (status_code (server (Suc 0)) = 413 \<and> retry_after (server (Suc 0)) \<noteq> None)"
      "status_code (server (Suc (Suc 0))) \<notin> {429, 500, 502, 503, 504}"
      "status_code (server (Suc (Suc 0))) = 413 \<longrightarrow> retry_after (server (Suc (Suc 0))) = None"
      unfolding i3 i2 i1 by blast+
    then show ?thesis unfolding x
      by (auto simp: raise_for_status_def pause_def less_Suc_eq)
  next
    case d
    have "urlopen build_session server 0 [] =
        (Inr (server (Suc (Suc (Suc 0)))), Suc (Suc (Suc (Suc 0))),
         [pause 0, pause (Suc 0), pause (Suc (Suc 0))])"
      unfolding start by (simp add: e3 e2 e1 e0 d p0 p1 p2)
    then have x: "extract_response server =
        (case raise_for_status (server (Suc (Suc (Suc 0)))) of Inl e \<Rightarrow> Inl e
         | Inr _ \<Rightarrow> Inr (json (server (Suc (Suc (Suc 0))))),
         Suc (Suc (Suc (Suc 0))), [pause 0, pause (Suc 0), pause (Suc (Suc 0))])"
      by (simp add: extract_response_def session_get_def split: sum.splits)
    from d have "status_code (server 0) \<in> {429, 500, 502, 503, 504}
          \<or> (status_code (server 0) = 413 \<and> retry_after (server 0) \<noteq> None)"
      "status_code (server (Suc 0)) \<in> {429, 500, 502, 503, 504}
          \<or> (status_code (server (Suc 0)) = 413 \<and> retry_after (server (Suc 0)) \<noteq> None)"
      "status_code (server (Suc (Suc 0))) \<in> {429, 500, 502, 503, 504}
          \<or> (status_code (server (Suc (Suc 0))) = 413
              \<and> retry_after (server (Suc (Suc 0))) \<noteq> None)"
      "status_code (server (Suc (Suc (Suc 0)))) \<notin> {429, 500, 502, 503, 504}"
      unfolding i3 i2 i1 i0 by blast+
    then show ?thesis unfolding x
      by (auto simp: raise_for_status_def pause_def less_Suc_eq)
  next
    case e
    have "urlopen build_session server 0 [] =
        (Inl MaxRetryError, Suc (Suc (Suc (Suc 0))),
         [pause 0, pause (Suc 0), pause (Suc (Suc 0))])"
      unfolding start by (simp add: e3 e2 e1 e0 e p0 p1 p2)
    then have x: "extract_response server =
        (Inl RetryError, Suc (Suc (Suc (Suc 0))), [pause 0, pause (Suc 0), pause (Suc (Suc 0))])"
      by (simp add: extract_response_def session_get_def)
    from e have "status_code (server 0) \<in> {429, 500, 502, 503, 504}
          \<or> (status_code (server 0) = 413 \<and> retry_after (server 0) \<noteq> None)"
      "status_code (server (Suc 0)) \<in> {429, 500, 502, 503, 504}
          \<or> (status_code (server (Suc 0)) = 413 \<and> retry_after (server (Suc 0)) \<noteq> None)"
      "status_code (server (Suc (Suc 0))) \<in> {429, 500, 502, 503, 504}
          \<or> (status_code (server (Suc (Suc 0))) = 413
              \<and> retry_after (server (Suc (Suc 0))) \<noteq> None)"
      "status_code (server (Suc (Suc (Suc 0)))) \<in> {429, 500, 502, 503, 504}"
      unfolding i3 i2 i1 i0 by blast+
    then show ?thesis unfolding x
      by (auto simp: pause_def less_Suc_eq)
  qed
qed

theorem extract_retry_policy_witness:
  "extract_response recovering = (Inr ''data'', 3, [0, 2])
   \<and> extract_response throttled = (Inr ''data'', 2, [7])
   \<and> extract_response (always 500) = (Inl RetryError, 4, [0, 2, 4])
   \<and> extract_response (always 404) = (Inl (HTTPError 404), 1, [])"
  using extract_retry_policy [of recovering] extract_retry_policy [of throttled]
    extract_retry_policy [of "always 500"] extract_retry_policy [of "always 404"]
  by (simp add: extract_response_def session_get_def build_session_def raise_for_status_def
      always_def recovering_def throttled_def urlopen.simps is_retry_def increment_def sleep_def
      get_backoff_time_def RETRY_AFTER_STATUS_CODES_def DEFAULT_BACKOFF_MAX_def)

subsection \<open>The dashboard\<close>

lemma refresh_data_failure:
  "exc \<noteq> [] \<Longrightarrow> refresh_data (Inl exc) =
     \<lparr>raw_content = Placeholder ''No data yet - run the Airflow DAG to populate raw_weather.'',
      summary_content = Placeholder ''No data yet - run dbt after the DAG has loaded raw_weather.'',
      banner_children = ''Database unreachable - charts show last loaded data. Error: '' @ exc,
      banner_style = BANNER_VISIBLE\<rparr>"
  by (simp add: refresh_data_def get_data_def build_tab_raw_def build_tab_summary_def truthy_def)

lemma refresh_data_success:
  "refresh_data (Inr (raw, summary)) =
     \<lparr>raw_content = build_tab_raw raw, summary_content = build_tab_summary summary,
      banner_children = [], banner_style = BANNER_HIDDEN\<rparr>"
  by (simp add: refresh_data_def get_data_def truthy_def)

text \<open>
  C9. A refresh that loaded \<^verbatim>\<open>SAMPLE_DF\<close> shows its graphs. The next refresh, whose
  read fails, shows the banner, and its text says that the charts show the last loaded
  data, but both contents are the "No data yet" placeholders: the data shown before is
  not kept.
\<close>

theorem refresh_failure_drops_last_data:
  "raw_content (refresh_all INITIAL_PAGE [Inr (to_dict_records SAMPLE_DF, [()])])
     = Graphs (to_dict_records SAMPLE_DF)
   \<and> refresh_all INITIAL_PAGE [Inr (to_dict_records SAMPLE_DF, [()]), Inl ''connection refused'']
     = \<lparr>raw_content = Placeholder ''No data yet - run the Airflow DAG to populate raw_weather.'',
        summary_content = Placeholder ''No data yet - run dbt after the DAG has loaded raw_weather.'',
        banner_children =
          ''Database unreachable - charts show last loaded data. Error: connection refused'',
        banner_style = BANNER_VISIBLE\<rparr>"
  by (simp add: refresh_data_def get_data_def build_tab_raw_def build_tab_summary_def truthy_def
      to_dict_records_def SAMPLE_DF_def)

end
